theory Spec2Isabelle
  imports Complex_Main "HOL-Library.Multiset" "HOL-Library.Sublist"
begin

section \<open>Common types\<close>

text \<open>
  \<open>types.py\<close>: an intent is \<open>Optional[str]\<close>; \<open>None\<close> is the None-intent.  Python
  floats are modelled as real numbers (no rounding, no NaN).
\<close>

type_synonym Intent = "string option"

datatype error = IndexError | ValueError | KeyError | ZeroDivisionError

text \<open>Sequencing of fallible steps: the first raise ends the computation.\<close>

definition bindE :: "error + 'a \<Rightarrow> ('a \<Rightarrow> error + 'b) \<Rightarrow> error + 'b" where
  "bindE m f = (case m of Inl e \<Rightarrow> Inl e | Inr x \<Rightarrow> f x)"

section \<open>\<open>nlu_intent_rating.py\<close>\<close>

record NLUIntentRating =
  rated_sentence :: string
  sorted_intents :: "(Intent \<times> real) list"

text \<open>
  \<open>__init__\<close>: \<open>sorted(rated_intents, key=lambda x: x[1], reverse=True)\<close>.  Python's sort is
  stable also with \<open>reverse=True\<close>; so is \<open>sort_key\<close> on the negated confidence.
\<close>

definition NLUIntentRating_init :: "string \<Rightarrow> (Intent \<times> real) list \<Rightarrow> NLUIntentRating" where
  "NLUIntentRating_init s rated_intents =
     \<lparr>rated_sentence = s, sorted_intents = sort_key (\<lambda>x. - snd x) rated_intents\<rparr>"

text \<open>\<open>detected_intent\<close>: \<open>self.__sorted_intents[0][0]\<close>; an empty list raises.\<close>

definition detected_intent :: "NLUIntentRating \<Rightarrow> error + Intent" where
  "detected_intent r =
     (case sorted_intents r of [] \<Rightarrow> Inl IndexError | x # _ \<Rightarrow> Inr (fst x))"

text \<open>
  \<open>noneIfBelow\<close>: the rating is mutated in place; the model returns the new rating.
\<close>

definition noneIfBelow :: "real \<Rightarrow> NLUIntentRating \<Rightarrow> error + NLUIntentRating" where
  "noneIfBelow threshold r =
     (case sorted_intents r of
        [] \<Rightarrow> Inl IndexError
      | x # _ \<Rightarrow>
          if snd x \<le> threshold
          then Inr (r\<lparr>sorted_intents := (None, 1) # sorted_intents r\<rparr>)
          else Inr r)"

section \<open>Statistics of \<open>nlu_benchmarker.py\<close>\<close>

text \<open>
  A Python \<open>dict\<close> keeps its keys in insertion order; it is modelled as an association
  list with distinct keys.  \<open>dict_set\<close> is \<open>d[k] = v\<close>, \<open>dict_get\<close> is \<open>d.get(k, default)\<close>.
\<close>

type_synonym ('k, 'v) dict = "('k \<times> 'v) list"

fun dict_set :: "'k \<Rightarrow> 'v \<Rightarrow> ('k, 'v) dict \<Rightarrow> ('k, 'v) dict" where
  "dict_set k v [] = [(k, v)]"
| "dict_set k v (p # ps) = (if fst p = k then (k, v) # ps else p # dict_set k v ps)"

definition dict_get :: "('k, 'v) dict \<Rightarrow> 'k \<Rightarrow> 'v \<Rightarrow> 'v" where
  "dict_get d k dflt = (case map_of d k of None \<Rightarrow> dflt | Some v \<Rightarrow> v)"

type_synonym ConfusionMatrix = "(Intent, (Intent, int) dict) dict"

text \<open>\<open>__safeDivide\<close>: 0 for 0/0; any other division by zero raises.\<close>

definition safeDivide :: "real \<Rightarrow> real \<Rightarrow> error + real" where
  "safeDivide dividend divisor =
     (if dividend = 0 \<and> divisor = 0 then Inr 0
      else if divisor = 0 then Inl ZeroDivisionError
      else Inr (dividend / divisor))"

text \<open>
  \<open>__prepareF1Score\<close>: the two nested loops over the matrix, with the four counters
  (true positives, true negatives, false positives, false negatives) as accumulator.
\<close>

definition count_cell ::
  "Intent \<Rightarrow> Intent \<Rightarrow> Intent \<times> int \<Rightarrow> int \<times> int \<times> int \<times> int \<Rightarrow> int \<times> int \<times> int \<times> int" where
  "count_cell intent expected cell acc =
     (case acc of (tp, tn, fp, fn) \<Rightarrow>
        if intent = expected then
          (if fst cell = intent then (tp + snd cell, tn, fp, fn)
           else (tp, tn, fp, fn + snd cell))
        else
          (if fst cell = intent then (tp, tn, fp + snd cell, fn)
           else (tp, tn + snd cell, fp, fn)))"

definition prepareF1Score :: "Intent \<Rightarrow> ConfusionMatrix \<Rightarrow> int \<times> int \<times> int \<times> int" where
  "prepareF1Score intent confusion_matrix =
     fold (\<lambda>row. fold (count_cell intent (fst row)) (snd row)) confusion_matrix (0, 0, 0, 0)"

definition f1_score_of :: "Intent \<Rightarrow> ConfusionMatrix \<Rightarrow> error + real" where
  "f1_score_of intent confusion_matrix =
     (case prepareF1Score intent confusion_matrix of (tp, tn, fp, fn) \<Rightarrow>
        bindE (safeDivide (real_of_int tp) (real_of_int (tp + fp))) (\<lambda>precision.
        bindE (safeDivide (real_of_int tp) (real_of_int (tp + fn))) (\<lambda>recall.
        safeDivide (100 * 2 * precision * recall) (precision + recall))))"

text \<open>\<open>confusionMatrixToF1Scores\<close>: one score for every key of the matrix, in key order.\<close>

fun f1_scores_loop ::
  "ConfusionMatrix \<Rightarrow> Intent list \<Rightarrow> (Intent, real) dict \<Rightarrow> error + (Intent, real) dict" where
  "f1_scores_loop cm [] f1_scores = Inr f1_scores"
| "f1_scores_loop cm (intent # intents) f1_scores =
     bindE (f1_score_of intent cm) (\<lambda>f1_score.
       f1_scores_loop cm intents (dict_set intent f1_score f1_scores))"

definition confusionMatrixToF1Scores :: "ConfusionMatrix \<Rightarrow> error + (Intent, real) dict" where
  "confusionMatrixToF1Scores confusion_matrix =
     f1_scores_loop confusion_matrix (map fst confusion_matrix) []"

section \<open>\<open>nlu_data_entry.py\<close> and \<open>nlu_data_set.py\<close>\<close>

record NLUDataEntry =
  sentence :: string
  intent :: Intent

text \<open>
  The fields of \<open>NLUDataSet\<close> that the split uses: \<open>__data\<close> (the entries with an intent),
  \<open>__none_data\<close> (the entries of the None-intent), \<open>__validation_size\<close>, \<open>__training\<close> and
  \<open>__validation\<close>.
\<close>

record NLUDataSet =
  title :: string
  data :: "NLUDataEntry list"
  none_data :: "NLUDataEntry list"
  validation_size :: int
  training :: "NLUDataEntry list"
  validation :: "NLUDataEntry list"

text \<open>
  Python's slices \<open>xs[k:]\<close> and \<open>xs[:k]\<close>: a negative \<open>k\<close> counts from the end, and a bound
  outside the list is clipped.
\<close>

definition slice_from :: "'a list \<Rightarrow> int \<Rightarrow> 'a list" where
  "slice_from xs k = (if k < 0 then drop (nat (int (length xs) + k)) xs else drop (nat k) xs)"

definition slice_to :: "'a list \<Rightarrow> int \<Rightarrow> 'a list" where
  "slice_to xs k = (if k < 0 then take (nat (int (length xs) + k)) xs else take (nat k) xs)"

text \<open>
  \<open>reshuffle\<close>.  The first argument is the rearrangement that \<open>random.shuffle\<close> applies to
  \<open>__data\<close> in this call.
\<close>

definition reshuffle ::
  "(NLUDataEntry list \<Rightarrow> NLUDataEntry list) \<Rightarrow> NLUDataSet \<Rightarrow> error + NLUDataSet" where
  "reshuffle shuffle ds =
     (let d = shuffle (data ds);
          tr = slice_from d (validation_size ds);
          va = slice_to d (validation_size ds)
      in if length va = 0 \<or> length tr = 0 then Inl ValueError
         else Inr (ds\<lparr>data := d, training := tr, validation := va @ none_data ds\<rparr>))"

text \<open>
  \<open>__init__\<close>, from the entries that \<open>_loadData\<close> or the cache delivered: the entries are
  separated by intent, the validation size is fixed, and the first shuffle-and-split runs.
\<close>

definition without_none :: "NLUDataEntry list \<Rightarrow> NLUDataEntry list" where
  "without_none xs = filter (\<lambda>x. intent x \<noteq> None) xs"

definition only_none :: "NLUDataEntry list \<Rightarrow> NLUDataEntry list" where
  "only_none xs = filter (\<lambda>x. intent x = None) xs"

definition NLUDataSet_init ::
  "(NLUDataEntry list \<Rightarrow> NLUDataEntry list) \<Rightarrow> string \<Rightarrow> NLUDataEntry list \<Rightarrow> int
     \<Rightarrow> error + NLUDataSet" where
  "NLUDataSet_init shuffle ttl loaded validation_percentage =
     (let d = without_none loaded;
          nd = only_none loaded
      in reshuffle shuffle
           \<lparr>title = ttl, data = d, none_data = nd,
            validation_size = (validation_percentage * int (length d)) div 100,
            training = [], validation = []\<rparr>)"

text \<open>A sequence of later \<open>reshuffle()\<close> calls on the same data set, one rearrangement each.\<close>

fun reshuffles ::
  "(NLUDataEntry list \<Rightarrow> NLUDataEntry list) list \<Rightarrow> NLUDataSet \<Rightarrow> error + NLUDataSet" where
  "reshuffles [] ds = Inr ds"
| "reshuffles (sh # shs) ds = bindE (reshuffle sh ds) (reshuffles shs)"

section \<open>\<open>parallel_exception.py\<close>\<close>

datatype ('e, 'o, 'r) ParallelException =
  ParallelException
    (message: string)
    (operation_exceptions: "('e \<times> 'o) list")
    (rollback_exceptions: "('e \<times> 'o \<times> 'r) list")

text \<open>
  An awaitable is a state transformer that delivers either the exception it raised (\<open>Inl\<close>)
  or its value (\<open>Inr\<close>).  \<open>gather\<close> is \<open>asyncio.gather(*map(f, xs), return_exceptions=True)\<close>
  with every awaitable run to completion in the order of the list; the results come in the
  order of the list.
\<close>

fun gather :: "('a \<Rightarrow> 's \<Rightarrow> ('e + 'r) \<times> 's) \<Rightarrow> 'a list \<Rightarrow> 's \<Rightarrow> ('e + 'r) list \<times> 's" where
  "gather f [] s = ([], s)"
| "gather f (x # xs) s =
     (case f x s of (r, s') \<Rightarrow>
        (case gather f xs s' of (rs, s'') \<Rightarrow> (r # rs, s'')))"

text \<open>
  The two \<open>filter\<close> calls of \<open>run_in_parallel\<close>: the pairs whose result is not an exception,
  and the pairs whose result is one.
\<close>

fun succeeded_of :: "('o \<times> ('e + 'r)) list \<Rightarrow> ('o \<times> 'r) list" where
  "succeeded_of [] = []"
| "succeeded_of ((ob, Inr r) # xs) = (ob, r) # succeeded_of xs"
| "succeeded_of ((ob, Inl e) # xs) = succeeded_of xs"

fun failed_of :: "(('e + 'r) \<times> 'o) list \<Rightarrow> ('e \<times> 'o) list" where
  "failed_of [] = []"
| "failed_of ((Inl e, ob) # xs) = (e, ob) # failed_of xs"
| "failed_of ((Inr r, ob) # xs) = failed_of xs"

text \<open>The triples \<open>(rollback_result, object, operation_result)\<close> whose first entry is an exception.\<close>

fun rollback_failures_of :: "(('e + 'a) \<times> ('o \<times> 'r)) list \<Rightarrow> ('e \<times> 'o \<times> 'r) list" where
  "rollback_failures_of [] = []"
| "rollback_failures_of ((Inl e, x) # xs) = (e, fst x, snd x) # rollback_failures_of xs"
| "rollback_failures_of ((Inr a, x) # xs) = rollback_failures_of xs"

definition run_in_parallel ::
  "'o list \<Rightarrow> ('o \<Rightarrow> 's \<Rightarrow> ('e + 'r) \<times> 's) \<Rightarrow> ('o \<Rightarrow> 'r \<Rightarrow> 's \<Rightarrow> ('e + 'a) \<times> 's) option
     \<Rightarrow> string \<Rightarrow> 's \<Rightarrow> (('e, 'o, 'r) ParallelException + 'r list) \<times> 's" where
  "run_in_parallel objects op rollback_op msg s =
     (case gather op objects s of (results, s1) \<Rightarrow>
        let succeeded = succeeded_of (zip objects results);
            failed = failed_of (zip results objects)
        in if length failed = 0 then (Inr (map projr results), s1)
           else
             (case rollback_op of
                None \<Rightarrow> (Inl (ParallelException msg failed []), s1)
              | Some rb \<Rightarrow>
                  (case gather (\<lambda>x. rb (fst x) (snd x)) succeeded s1 of (results', s2) \<Rightarrow>
                     (Inl (ParallelException msg failed
                             (rollback_failures_of (zip results' succeeded))), s2))))"

text \<open>
  Recording the invocations: an operation and a rollback operation that, besides what they
  do, append the call to a trace kept beside the state.
\<close>

datatype ('o, 'r) call = OpCall 'o | RollbackCall 'o 'r

definition traced_op ::
  "('o \<Rightarrow> 's \<Rightarrow> ('e + 'r) \<times> 's) \<Rightarrow> 'o \<Rightarrow> 's \<times> ('o, 'r) call list
     \<Rightarrow> ('e + 'r) \<times> 's \<times> ('o, 'r) call list" where
  "traced_op op x st =
     (case op x (fst st) of (res, s') \<Rightarrow> (res, (s', snd st @ [OpCall x])))"

definition traced_rollback ::
  "('o \<Rightarrow> 'r \<Rightarrow> 's \<Rightarrow> ('e + 'a) \<times> 's) \<Rightarrow> 'o \<Rightarrow> 'r \<Rightarrow> 's \<times> ('o, 'r) call list
     \<Rightarrow> ('e + 'a) \<times> 's \<times> ('o, 'r) call list" where
  "traced_rollback rb x r st =
     (case rb x r (fst st) of (res, s') \<Rightarrow> (res, (s', snd st @ [RollbackCall x r])))"

definition is_rollback :: "('o, 'r) call \<Rightarrow> bool" where
  "is_rollback c = (case c of OpCall _ \<Rightarrow> False | RollbackCall _ _ \<Rightarrow> True)"
section \<open>Auxiliary notions for the data-set split\<close>

text \<open>Whether a split raises depends on the length of the data and the validation size only.\<close>

definition split_ok :: "nat \<Rightarrow> int \<Rightarrow> bool" where
  "split_ok n k \<longleftrightarrow>
     (if k < 0 then min n (nat (int n + k)) \<noteq> 0 \<and> n - nat (int n + k) \<noteq> 0
      else min n (nat k) \<noteq> 0 \<and> n - nat k \<noteq> 0)"



section \<open>Aggregation over the iterations (\<open>nlu_benchmarker.py\<close>)\<close>


text \<open>\<open>d[k]\<close> on a dict raises \<open>KeyError\<close> for a missing key.\<close>

definition dict_lookup :: "('k, 'v) dict \<Rightarrow> 'k \<Rightarrow> error + 'v" where
  "dict_lookup d k = (case map_of d k of None \<Rightarrow> Inl KeyError | Some v \<Rightarrow> Inr v)"

text \<open>\<open>list(map(f, xs))\<close> for a fallible \<open>f\<close>: the first raise ends the traversal.\<close>

fun mapE :: "('a \<Rightarrow> error + 'b) \<Rightarrow> 'a list \<Rightarrow> error + 'b list" where
  "mapE f [] = Inr []"
| "mapE f (x # xs) = bindE (f x) (\<lambda>y. bindE (mapE f xs) (\<lambda>ys. Inr (y # ys)))"

type_synonym F1Scores = "(string, (string, (Intent, real) dict) dict) dict"

text \<open>
  \<open>score_getter\<close>: \<open>x[data_set.title][framework.title].get(intent, None)\<close> for one iteration
  \<open>x\<close>.
\<close>

definition score_getter :: "string \<Rightarrow> string \<Rightarrow> Intent \<Rightarrow> F1Scores \<Rightarrow> error + real option" where
  "score_getter data_set_title framework_title intent' x =
     bindE (dict_lookup x data_set_title) (\<lambda>by_framework.
     bindE (dict_lookup by_framework framework_title) (\<lambda>by_intent.
     Inr (map_of by_intent intent')))"






section \<open>\<open>nlu_framework.py\<close>: the lifecycle of a framework\<close>

text \<open>
  What a framework method or the orchestration can raise: an exception of the framework's
  own (of an arbitrary type \<open>'e\<close>) or one of Python's built-in exceptions.
\<close>

datatype 'e exn = FrameworkError 'e | PythonError error

text \<open>
  The overridable methods of \<open>NLUFramework\<close>.  A framework object is a value of type \<open>'f\<close>, a
  data-set object a value of type \<open>'d\<close>; everything the methods touch (the frameworks'
  servers and models, the data sets, the random generator, the cancel flag) lives in a
  state of type \<open>'s\<close>.  An awaited method is a state transformer that delivers the raised
  exception or the value.
\<close>

record ('f, 'd, 's, 'e) NLUFramework =
  framework_title :: "'f \<Rightarrow> string"
  prepareDataSet :: "'f \<Rightarrow> 'd \<Rightarrow> 's \<Rightarrow> ('e exn + unit) \<times> 's"
  unprepareDataSet :: "'f \<Rightarrow> 's \<Rightarrow> ('e exn + unit) \<times> 's"
  train :: "'f \<Rightarrow> NLUDataEntry list \<Rightarrow> 's \<Rightarrow> ('e exn + unit) \<times> 's"
  rateIntents :: "'f \<Rightarrow> string \<Rightarrow> 's \<Rightarrow> ('e exn + NLUIntentRating) \<times> 's"
  cleanupTraining :: "'f \<Rightarrow> 's \<Rightarrow> ('e exn + unit) \<times> 's"
  destruct :: "'f \<Rightarrow> 's \<Rightarrow> ('e exn + unit) \<times> 's"

text \<open>
  What the orchestration uses of a data-set object: its title, the two accessors (each
  returns a copy of the current list) and \<open>reshuffle()\<close>.
\<close>

record ('d, 's) DataSetAccess =
  data_set_title :: "'d \<Rightarrow> string"
  training_data :: "'d \<Rightarrow> 's \<Rightarrow> NLUDataEntry list \<times> 's"
  validation_data :: "'d \<Rightarrow> 's \<Rightarrow> NLUDataEntry list \<times> 's"
  reshuffle_data_set :: "'d \<Rightarrow> 's \<Rightarrow> (error + unit) \<times> 's"

text \<open>
  \<open>try: body finally: final\<close>.  The final block always runs; when it raises, its exception
  is the one that propagates, otherwise the outcome of the body stands.
\<close>

definition try_finally ::
  "('s \<Rightarrow> ('x + 'a) \<times> 's) \<Rightarrow> ('s \<Rightarrow> ('x + 'b) \<times> 's) \<Rightarrow> 's \<Rightarrow> ('x + 'a) \<times> 's" where
  "try_finally body final s =
     (case body s of (r, s1) \<Rightarrow>
        (case final s1 of (Inl e, s2) \<Rightarrow> (Inl e, s2) | (Inr _, s2) \<Rightarrow> (r, s2)))"

text \<open>
  \<open>__validate\<close>: the loop over the validation data, with the confusion matrix as
  accumulator.  The row of the expected intent is created before the sentence is rated.
\<close>

fun validate ::
  "('f, 'd, 's, 'e) NLUFramework \<Rightarrow> 'f \<Rightarrow> NLUDataEntry list \<Rightarrow> ConfusionMatrix \<Rightarrow> 's
     \<Rightarrow> ('e exn + ConfusionMatrix) \<times> 's" where
  "validate m fw [] confusion_matrix s = (Inr confusion_matrix, s)"
| "validate m fw (datum # rest) confusion_matrix s =
     (let cm1 = dict_set (intent datum) (dict_get confusion_matrix (intent datum) [])
                  confusion_matrix
      in case rateIntents m fw (sentence datum) s of
           (Inl e, s1) \<Rightarrow> (Inl e, s1)
         | (Inr rating, s1) \<Rightarrow>
             (case detected_intent rating of
                Inl err \<Rightarrow> (Inl (PythonError err), s1)
              | Inr detected \<Rightarrow>
                  let row = dict_get cm1 (intent datum) [];
                      cm2 = dict_set (intent datum)
                              (dict_set detected (dict_get row detected 0 + 1) row) cm1
                  in validate m fw rest cm2 s1))"

text \<open>\<open>benchmark\<close>: train, validate, and clean up in any case.\<close>

definition benchmark ::
  "('f, 'd, 's, 'e) NLUFramework \<Rightarrow> ('d, 's) DataSetAccess \<Rightarrow> 'd \<Rightarrow> 'f \<Rightarrow> 's
     \<Rightarrow> ('e exn + ConfusionMatrix) \<times> 's" where
  "benchmark m a data_set fw =
     try_finally
       (\<lambda>s. case training_data a data_set s of (td, s0) \<Rightarrow>
          (case train m fw td s0 of
             (Inl e, s1) \<Rightarrow> (Inl e, s1)
           | (Inr _, s1) \<Rightarrow>
               (case validation_data a data_set s1 of (vd, s2) \<Rightarrow> validate m fw vd [] s2)))
       (cleanupTraining m fw)"

section \<open>\<open>nlu_benchmarker.py\<close>: running the benchmark\<close>

text \<open>
  What \<open>run\<close> can raise: the \<open>ParallelException\<close> of one of its four parallel phases, the
  \<open>KeyboardInterrupt\<close> of a cancellation, or a built-in exception (the \<open>ValueError\<close> of
  \<open>reshuffle\<close>, or one of the reporting).
\<close>

datatype ('e, 'f) run_exn =
    PrepareError "('e exn, 'f, unit) ParallelException"
  | BenchmarkError "('e exn, 'f, ConfusionMatrix) ParallelException"
  | UnprepareError "('e exn, 'f, unit) ParallelException"
  | DestructError "('e exn, 'f, unit) ParallelException"
  | KeyboardInterrupt
  | OtherError error

text \<open>The messages of the four parallel phases.\<close>

definition prepare_message :: "string \<Rightarrow> string" where
  "prepare_message data_set_title' =
     ''Error while preparing all frameworks for the '' @ data_set_title' @ '' data set.''"

definition benchmark_message :: string where
  "benchmark_message = ''Error while benchmarking all frameworks.''"

definition unprepare_message :: string where
  "unprepare_message = ''Error unpreparing all frameworks.''"

definition destruct_message :: string where
  "destruct_message = ''Error deconstructing all frameworks.''"

type_synonym Iterations = "(string, (string, ConfusionMatrix) dict) dict list"

text \<open>\<open>{ framework.title: performance for framework, performance in zip(...) }\<close>\<close>

definition dict_of_pairs :: "('k \<times> 'v) list \<Rightarrow> ('k, 'v) dict" where
  "dict_of_pairs ps = fold (\<lambda>p d. dict_set (fst p) (snd p) d) ps []"

text \<open>
  The loop \<open>for i in range(num_iterations)\<close> inside \<open>__run\<close>, for one data set; \<open>cancel_flag\<close>
  reads the cancel flag from the state.
\<close>

fun benchmark_loop ::
  "('f, 'd, 's, 'e) NLUFramework \<Rightarrow> ('d, 's) DataSetAccess \<Rightarrow> ('s \<Rightarrow> bool) \<Rightarrow> 'f list \<Rightarrow> 'd
     \<Rightarrow> nat list \<Rightarrow> Iterations \<Rightarrow> 's \<Rightarrow> (('e, 'f) run_exn + Iterations) \<times> 's" where
  "benchmark_loop m a cancel_flag frameworks data_set [] iterations s = (Inr iterations, s)"
| "benchmark_loop m a cancel_flag frameworks data_set (i # rest) iterations s =
     (case run_in_parallel frameworks (benchmark m a data_set)
             (None :: ('f \<Rightarrow> ConfusionMatrix \<Rightarrow> 's \<Rightarrow> ('e exn + unit) \<times> 's) option)
             benchmark_message s of
        (Inl pe, s1) \<Rightarrow> (Inl (BenchmarkError pe), s1)
      | (Inr performances, s1) \<Rightarrow>
          (case reshuffle_data_set a data_set s1 of
             (Inl err, s2) \<Rightarrow> (Inl (OtherError err), s2)
           | (Inr _, s2) \<Rightarrow>
               let its1 = (if length iterations = i then iterations @ [[]] else iterations)
               in if length its1 \<le> i then (Inl (OtherError IndexError), s2)
                  else
                    let its2 = its1[i := dict_set (data_set_title a data_set)
                                 (dict_of_pairs (zip (map (framework_title m) frameworks)
                                    performances)) (its1 ! i)]
                    in if cancel_flag s2 then (Inl KeyboardInterrupt, s2)
                       else benchmark_loop m a cancel_flag frameworks data_set rest its2 s2))"

text \<open>The body of the loop over the data sets in \<open>__run\<close>.\<close>

definition run_data_set ::
  "('f, 'd, 's, 'e) NLUFramework \<Rightarrow> ('d, 's) DataSetAccess \<Rightarrow> ('s \<Rightarrow> bool) \<Rightarrow> 'f list \<Rightarrow> int
     \<Rightarrow> 'd \<Rightarrow> Iterations \<Rightarrow> 's \<Rightarrow> (('e, 'f) run_exn + Iterations) \<times> 's" where
  "run_data_set m a cancel_flag frameworks num_iterations data_set iterations s =
     (case run_in_parallel frameworks (\<lambda>x. prepareDataSet m x data_set)
             (Some (\<lambda>x _. unprepareDataSet m x))
             (prepare_message (data_set_title a data_set)) s of
        (Inl pe, s1) \<Rightarrow> (Inl (PrepareError pe), s1)
      | (Inr _, s1) \<Rightarrow>
          (case (if cancel_flag s1 then (Inl KeyboardInterrupt, s1)
                 else benchmark_loop m a cancel_flag frameworks data_set
                        [0..<nat num_iterations] iterations s1) of
             (r, s2) \<Rightarrow>
               (case run_in_parallel frameworks (unprepareDataSet m)
                       (None :: ('f \<Rightarrow> unit \<Rightarrow> 's \<Rightarrow> ('e exn + unit) \<times> 's) option)
                       unprepare_message s2 of
                  (Inl pe, s3) \<Rightarrow> (Inl (UnprepareError pe), s3)
                | (Inr _, s3) \<Rightarrow> (r, s3))))"

text \<open>\<open>__run\<close>: one data set after the other; the first exception ends the loop.\<close>

fun run_private ::
  "('f, 'd, 's, 'e) NLUFramework \<Rightarrow> ('d, 's) DataSetAccess \<Rightarrow> ('s \<Rightarrow> bool) \<Rightarrow> 'f list \<Rightarrow> int
     \<Rightarrow> 'd list \<Rightarrow> Iterations \<Rightarrow> 's \<Rightarrow> (('e, 'f) run_exn + Iterations) \<times> 's" where
  "run_private m a cancel_flag frameworks num_iterations [] iterations s = (Inr iterations, s)"
| "run_private m a cancel_flag frameworks num_iterations (data_set # data_sets) iterations s =
     (case run_data_set m a cancel_flag frameworks num_iterations data_set iterations s of
        (Inl e, s1) \<Rightarrow> (Inl e, s1)
      | (Inr its1, s1) \<Rightarrow> run_private m a cancel_flag frameworks num_iterations data_sets its1 s1)"

text \<open>
  \<open>run\<close>: \<open>__run\<close>, then in any case the destruction of all frameworks, then the reporting.
  The reporting (F1 scores, means and variances, the chart, the winner) calls no method of
  a framework; it is the parameter \<open>report\<close>, which may raise.
\<close>

definition run ::
  "('f, 'd, 's, 'e) NLUFramework \<Rightarrow> ('d, 's) DataSetAccess \<Rightarrow> ('s \<Rightarrow> bool)
     \<Rightarrow> (Iterations \<Rightarrow> error + unit) \<Rightarrow> 'f list \<Rightarrow> 'd list \<Rightarrow> int \<Rightarrow> 's
     \<Rightarrow> (('e, 'f) run_exn + unit) \<times> 's" where
  "run m a cancel_flag report frameworks data_sets num_iterations s =
     (case run_private m a cancel_flag frameworks num_iterations data_sets [] s of (r, s1) \<Rightarrow>
        (case run_in_parallel frameworks (destruct m)
                (None :: ('f \<Rightarrow> unit \<Rightarrow> 's \<Rightarrow> ('e exn + unit) \<times> 's) option)
                destruct_message s1 of
           (Inl pe, s2) \<Rightarrow> (Inl (DestructError pe), s2)
         | (Inr _, s2) \<Rightarrow>
             (case r of
                Inl e \<Rightarrow> (Inl e, s2)
              | Inr iterations \<Rightarrow>
                  (case report iterations of
                     Inl err \<Rightarrow> (Inl (OtherError err), s2)
                   | Inr u \<Rightarrow> (Inr u, s2)))))"

text \<open>
  Recording the lifecycle: every method call and every access to a data set appends an
  event to a trace kept beside the state.
\<close>

datatype ('f, 'd) event =
    Prepare 'f 'd | Unprepare 'f | Train 'f "NLUDataEntry list" | Rate 'f string
  | Cleanup 'f | Destruct 'f | Reshuffle 'd
  | ReadTraining 'd "NLUDataEntry list" | ReadValidation 'd "NLUDataEntry list"

definition logged ::
  "'ev \<Rightarrow> ('s \<Rightarrow> 'r \<times> 's) \<Rightarrow> 's \<times> 'ev list \<Rightarrow> 'r \<times> 's \<times> 'ev list" where
  "logged ev f st = (case f (fst st) of (r, s') \<Rightarrow> (r, (s', snd st @ [ev])))"

definition logged_read ::
  "('v \<Rightarrow> 'ev) \<Rightarrow> ('s \<Rightarrow> 'v \<times> 's) \<Rightarrow> 's \<times> 'ev list \<Rightarrow> 'v \<times> 's \<times> 'ev list" where
  "logged_read ev f st = (case f (fst st) of (v, s') \<Rightarrow> (v, (s', snd st @ [ev v])))"

definition traced_framework ::
  "('f, 'd, 's, 'e) NLUFramework \<Rightarrow> ('f, 'd, 's \<times> ('f, 'd) event list, 'e) NLUFramework" where
  "traced_framework m =
     \<lparr>framework_title = framework_title m,
      prepareDataSet = (\<lambda>f d. logged (Prepare f d) (prepareDataSet m f d)),
      unprepareDataSet = (\<lambda>f. logged (Unprepare f) (unprepareDataSet m f)),
      train = (\<lambda>f td. logged (Train f td) (train m f td)),
      rateIntents = (\<lambda>f x. logged (Rate f x) (rateIntents m f x)),
      cleanupTraining = (\<lambda>f. logged (Cleanup f) (cleanupTraining m f)),
      destruct = (\<lambda>f. logged (Destruct f) (destruct m f))\<rparr>"

definition traced_access ::
  "('d, 's) DataSetAccess \<Rightarrow> ('d, 's \<times> ('f, 'd) event list) DataSetAccess" where
  "traced_access a =
     \<lparr>data_set_title = data_set_title a,
      training_data = (\<lambda>d. logged_read (ReadTraining d) (training_data a d)),
      validation_data = (\<lambda>d. logged_read (ReadValidation d) (validation_data a d)),
      reshuffle_data_set = (\<lambda>d. logged (Reshuffle d) (reshuffle_data_set a d))\<rparr>"

section \<open>The shape of a lifecycle trace\<close>

text \<open>
  The events of one complete \<open>benchmark\<close> of framework \<open>f\<close> on data set \<open>d\<close>: the training data
  is read and trained on, the validation data is read, every entry of it is rated once, and
  the training is cleaned up.
\<close>

definition benchmark_events ::
  "'f \<Rightarrow> 'd \<Rightarrow> NLUDataEntry list \<Rightarrow> NLUDataEntry list \<Rightarrow> ('f, 'd) event list" where
  "benchmark_events f d td vd =
     [ReadTraining d td, Train f td, ReadValidation d vd]
       @ map (\<lambda>x. Rate f (sentence x)) vd @ [Cleanup f]"

definition complete_benchmark :: "'d \<Rightarrow> 'f \<Rightarrow> ('f, 'd) event list \<Rightarrow> bool" where
  "complete_benchmark d f p \<longleftrightarrow> (\<exists>td vd. p = benchmark_events f d td vd)"

text \<open>
  The events of any \<open>benchmark\<close>, failed or not: one training, the ratings of an initial part
  of the validation data (none when the training failed), and one cleanup at the end.
\<close>

definition partial_benchmark :: "'d \<Rightarrow> 'f \<Rightarrow> ('f, 'd) event list \<Rightarrow> bool" where
  "partial_benchmark d f p \<longleftrightarrow>
     (\<exists>td. p = [ReadTraining d td, Train f td, Cleanup f])
   \<or> (\<exists>td vd k. p = [ReadTraining d td, Train f td, ReadValidation d vd]
                     @ map (\<lambda>x. Rate f (sentence x)) (take k vd) @ [Cleanup f])"

text \<open>
  One iteration: either every framework completed its benchmark and the data set was
  reshuffled, or some benchmark failed (every framework was still trained and cleaned up).
\<close>

definition completed_iteration :: "'f list \<Rightarrow> 'd \<Rightarrow> ('f, 'd) event list \<Rightarrow> bool" where
  "completed_iteration fws d it \<longleftrightarrow>
     (\<exists>parts. list_all2 (complete_benchmark d) fws parts \<and> it = concat parts @ [Reshuffle d])"

definition failed_iteration :: "'f list \<Rightarrow> 'd \<Rightarrow> ('f, 'd) event list \<Rightarrow> bool" where
  "failed_iteration fws d it \<longleftrightarrow>
     (\<exists>parts. list_all2 (partial_benchmark d) fws parts \<and> it = concat parts)"

text \<open>
  The events of a data set whose preparation succeeded: one preparation per framework,
  completed iterations, possibly a failed iteration, and one unpreparation per framework.
\<close>

definition prepared_segment :: "'f list \<Rightarrow> 'd \<Rightarrow> ('f, 'd) event list \<Rightarrow> bool" where
  "prepared_segment fws d seg \<longleftrightarrow>
     (\<exists>its last_it.
        list_all (completed_iteration fws d) its
      \<and> (last_it = [] \<or> failed_iteration fws d last_it)
      \<and> seg = map (\<lambda>f. Prepare f d) fws @ concat its @ last_it @ map Unprepare fws)"

text \<open>
  The events of a data set whose preparation failed: one preparation per framework, and the
  rollback, an unpreparation of the frameworks that had succeeded.
\<close>

definition rollback_segment :: "'f list \<Rightarrow> 'd \<Rightarrow> ('f, 'd) event list \<Rightarrow> bool" where
  "rollback_segment fws d seg \<longleftrightarrow>
     (\<exists>fws'. subseq fws' fws \<and> length fws' < length fws
        \<and> seg = map (\<lambda>f. Prepare f d) fws @ map Unprepare fws')"

definition is_prepare_error :: "('e, 'f) run_exn + 'a \<Rightarrow> bool" where
  "is_prepare_error r = (case r of Inl (PrepareError _) \<Rightarrow> True | _ \<Rightarrow> False)"

definition is_destruct :: "('f, 'd) event \<Rightarrow> bool" where
  "is_destruct ev = (case ev of Destruct _ \<Rightarrow> True | _ \<Rightarrow> False)"

definition is_prepare :: "('f, 'd) event \<Rightarrow> bool" where
  "is_prepare ev = (case ev of Prepare _ _ \<Rightarrow> True | _ \<Rightarrow> False)"

definition is_unprepare :: "('f, 'd) event \<Rightarrow> bool" where
  "is_unprepare ev = (case ev of Unprepare _ \<Rightarrow> True | _ \<Rightarrow> False)"

section \<open>Verified properties\<close>

subsection \<open>Intent ratings\<close>

lemma sort_key_hd_least:
  assumes "xs \<noteq> []" "y \<in> set xs"
  shows "f (hd (sort_key f xs)) \<le> f y"
proof -
  let ?ys = "sort_key f xs"
  have ne: "?ys \<noteq> []" using assms(1) by (metis length_sort length_0_conv)
  have srt: "sorted (map f ?ys)" by (rule sorted_sort_key)
  have mem: "y \<in> set ?ys" using assms(2) by simp
  obtain z zs where eq: "?ys = z # zs" using ne by (cases ?ys) auto
  from srt mem show ?thesis unfolding eq by auto
qed

text \<open>After construction the first pair of a rating carries the highest confidence.\<close>

lemma init_top_is_Max:
  assumes "rated \<noteq> []"
  shows "\<exists>x rest. sorted_intents (NLUIntentRating_init s rated) = x # rest \<and>
           snd x = Max (snd ` set rated)"
proof -
  let ?ys = "sort_key (\<lambda>x. - snd x) rated"
  have ne: "?ys \<noteq> []" using assms by (metis length_sort length_0_conv)
  then obtain z zs where eq: "?ys = z # zs" by (cases ?ys) auto
  have zin: "z \<in> set rated"
  proof -
    have "z \<in> set ?ys" unfolding eq by simp
    then show ?thesis by simp
  qed
  have ub: "snd y \<le> snd z" if "y \<in> set rated" for y
    using sort_key_hd_least [OF assms that, of "\<lambda>x. - snd x"] unfolding eq by simp
  have "Max (snd ` set rated) = snd z"
    by (rule Max_eqI) (use zin ub in auto)
  then show ?thesis
    by (simp add: NLUIntentRating_init_def eq)
qed

text \<open>
  Claim C6.  For a non-empty rating with top pair \<open>x\<close> and any threshold \<open>t\<close>: if the top
  confidence is at most \<open>t\<close> (equality included), \<open>noneIfBelow t\<close> puts \<open>(None, 1.0)\<close> in front
  and the detected intent becomes the None-intent; if the top confidence is greater than \<open>t\<close>
  the rating is unchanged.  For a freshly constructed rating the top confidence is the
  maximum of the given confidences.  The rating \<open>("x", [("A", 0.2), ("B", 0.9)])\<close> detects
  \<open>"B"\<close>, and after \<open>noneIfBelow(0.9)\<close> it detects \<open>None\<close>.
\<close>

theorem noneIfBelow_inclusive:
  "(sorted_intents r = x # rest \<longrightarrow>
      (snd x \<le> t \<longrightarrow>
         noneIfBelow t r = Inr (r\<lparr>sorted_intents := (None, 1) # x # rest\<rparr>) \<and>
         bindE (noneIfBelow t r) detected_intent = Inr None) \<and>
      (t < snd x \<longrightarrow> noneIfBelow t r = Inr r))
   \<and> (rated \<noteq> [] \<longrightarrow>
      (Max (snd ` set rated) \<le> t \<longrightarrow>
         bindE (noneIfBelow t (NLUIntentRating_init s rated)) detected_intent = Inr None) \<and>
      (t < Max (snd ` set rated) \<longrightarrow>
         noneIfBelow t (NLUIntentRating_init s rated) = Inr (NLUIntentRating_init s rated)))
   \<and> detected_intent (NLUIntentRating_init ''x'' [(Some ''A'', 2 / 10), (Some ''B'', 9 / 10)])
        = Inr (Some ''B'')
   \<and> bindE (noneIfBelow (9 / 10)
               (NLUIntentRating_init ''x'' [(Some ''A'', 2 / 10), (Some ''B'', 9 / 10)]))
        detected_intent = Inr None"
proof (intro conjI impI)
  assume "rated \<noteq> []" and le: "Max (snd ` set rated) \<le> t"
  then obtain x rest where "sorted_intents (NLUIntentRating_init s rated) = x # rest"
    "snd x = Max (snd ` set rated)" using init_top_is_Max by blast
  with le show "bindE (noneIfBelow t (NLUIntentRating_init s rated)) detected_intent = Inr None"
    by (simp add: noneIfBelow_def bindE_def detected_intent_def)
next
  assume "rated \<noteq> []" and gt: "t < Max (snd ` set rated)"
  then obtain x rest where "sorted_intents (NLUIntentRating_init s rated) = x # rest"
    "snd x = Max (snd ` set rated)" using init_top_is_Max by blast
  with gt show "noneIfBelow t (NLUIntentRating_init s rated) = Inr (NLUIntentRating_init s rated)"
    by (simp add: noneIfBelow_def)
qed (simp_all add: noneIfBelow_def bindE_def detected_intent_def NLUIntentRating_init_def)

theorem noneIfBelow_inclusive_witness:
  "noneIfBelow (1 / 2)
       \<lparr>rated_sentence = ''x'', sorted_intents = [(Some ''B'', 1 / 2), (Some ''A'', 1 / 5)]\<rparr>
     = Inr \<lparr>rated_sentence = ''x'',
            sorted_intents = [(None, 1), (Some ''B'', 1 / 2), (Some ''A'', 1 / 5)]\<rparr>
   \<and> noneIfBelow (1 / 4)
       \<lparr>rated_sentence = ''x'', sorted_intents = [(Some ''B'', 1 / 2), (Some ''A'', 1 / 5)]\<rparr>
     = Inr \<lparr>rated_sentence = ''x'', sorted_intents = [(Some ''B'', 1 / 2), (Some ''A'', 1 / 5)]\<rparr>
   \<and> bindE (noneIfBelow (1 / 2)
              (NLUIntentRating_init ''x'' [(Some ''A'', 1 / 5), (Some ''B'', 1 / 2)]))
        detected_intent = Inr None"
  using noneIfBelow_inclusive [of
      "\<lparr>rated_sentence = ''x'', sorted_intents = [(Some ''B'', 1 / 2), (Some ''A'', 1 / 5)]\<rparr>"
      "(Some ''B'', 1 / 2)" "[(Some ''A'', 1 / 5)]" "1 / 2"
      "[(Some ''A'', 1 / 5), (Some ''B'', 1 / 2)]" "''x''"]
    noneIfBelow_inclusive [of
      "\<lparr>rated_sentence = ''x'', sorted_intents = [(Some ''B'', 1 / 2), (Some ''A'', 1 / 5)]\<rparr>"
      "(Some ''B'', 1 / 2)" "[(Some ''A'', 1 / 5)]" "1 / 4"
      "[(Some ''A'', 1 / 5), (Some ''B'', 1 / 2)]" "''x''"]
  by simp

text \<open>
  Claim C7, as stated, fails: with the thresholds falling from 0.95 to 0.5, the first
  application on \<open>[("B", 0.9)]\<close> replaces, and the second one inserts nothing, because the
  top confidence is then the 1.0 of the None-intent.
\<close>

theorem noneIfBelow_falling_counterexample:
  "(1 / 2 :: real) < 95 / 100
   \<and> noneIfBelow (95 / 100) \<lparr>rated_sentence = ''x'', sorted_intents = [(Some ''B'', 9 / 10)]\<rparr>
       = Inr \<lparr>rated_sentence = ''x'', sorted_intents = [(None, 1), (Some ''B'', 9 / 10)]\<rparr>
   \<and> noneIfBelow (1 / 2)
         \<lparr>rated_sentence = ''x'', sorted_intents = [(None, 1), (Some ''B'', 9 / 10)]\<rparr>
       = Inr \<lparr>rated_sentence = ''x'', sorted_intents = [(None, 1), (Some ''B'', 9 / 10)]\<rparr>"
  by (simp add: noneIfBelow_def)

text \<open>
  Claim C7, amended.  When a first \<open>noneIfBelow t1\<close> performed the replacement, a second
  \<open>noneIfBelow t2\<close> on the same rating inserts the None-intent again exactly when \<open>t2\<close> is at
  least 1.0; for every \<open>t2\<close> below 1.0 (falling or not) it leaves the rating as it is.
\<close>

theorem noneIfBelow_second_application:
  assumes "noneIfBelow t1 r = Inr r1" and "r1 \<noteq> r"
  shows "(noneIfBelow t2 r1 = Inr (r1\<lparr>sorted_intents := (None, 1) # sorted_intents r1\<rparr>)
            \<longleftrightarrow> 1 \<le> t2)
       \<and> (t2 < 1 \<longrightarrow> noneIfBelow t2 r1 = Inr r1)"
proof -
  from assms have r1: "r1 = r\<lparr>sorted_intents := (None, 1) # sorted_intents r\<rparr>"
    by (auto simp: noneIfBelow_def split: list.splits if_splits)
  have neq: "r1\<lparr>sorted_intents := (None, 1) # sorted_intents r1\<rparr> \<noteq> r1"
  proof
    assume "r1\<lparr>sorted_intents := (None, 1) # sorted_intents r1\<rparr> = r1"
    then have "sorted_intents (r1\<lparr>sorted_intents := (None, 1) # sorted_intents r1\<rparr>)
                 = sorted_intents r1"
      by simp
    then show False by simp
  qed
  show ?thesis using neq by (auto simp: noneIfBelow_def r1)
qed

theorem noneIfBelow_second_application_witness:
  "noneIfBelow (95 / 100) \<lparr>rated_sentence = ''x'', sorted_intents = [(Some ''B'', 9 / 10)]\<rparr>
       = Inr \<lparr>rated_sentence = ''x'', sorted_intents = [(None, 1), (Some ''B'', 9 / 10)]\<rparr>
   \<and> \<lparr>rated_sentence = ''x'', sorted_intents = [(None, 1), (Some ''B'', 9 / 10)]\<rparr>
       \<noteq> \<lparr>rated_sentence = ''x'', sorted_intents = [(Some ''B'', 9 / 10)]\<rparr>
   \<and> (1 / 2 :: real) < 1
   \<and> noneIfBelow (1 / 2)
         \<lparr>rated_sentence = ''x'', sorted_intents = [(None, 1), (Some ''B'', 9 / 10)]\<rparr>
       = Inr \<lparr>rated_sentence = ''x'', sorted_intents = [(None, 1), (Some ''B'', 9 / 10)]\<rparr>"
  using noneIfBelow_second_application [of "95 / 100"
     "\<lparr>rated_sentence = ''x'', sorted_intents = [(Some ''B'', 9 / 10)]\<rparr>"
     "\<lparr>rated_sentence = ''x'', sorted_intents = [(None, 1), (Some ''B'', 9 / 10)]\<rparr>" "1 / 2"]
  by (simp add: noneIfBelow_def)

subsection \<open>F1 scores\<close>

text \<open>
  Claim C5, as stated, fails: the result is not the one-entry mapping \<open>{"A": 0.0}\<close>, since
  the loop runs over every key of the matrix and \<open>"B"\<close> is a key.
\<close>

theorem confusionMatrixToF1Scores_example_counterexample:
  "confusionMatrixToF1Scores [(Some ''A'', [(Some ''B'', 1)]), (Some ''B'', [])]
     \<noteq> Inr [(Some ''A'', 0)]"
  by (simp add: confusionMatrixToF1Scores_def f1_score_of_def prepareF1Score_def count_cell_def
       safeDivide_def bindE_def)

text \<open>
  Claim C5, amended.  On the matrix \<open>{"A": {"B": 1}, "B": {}}\<close> the function returns the
  mapping \<open>{"A": 0.0, "B": 0.0}\<close>: one score per expected intent, each 0.0 through the
  convention that \<open>safeDivide(0, 0)\<close> is 0.
\<close>

theorem confusionMatrixToF1Scores_example:
  "confusionMatrixToF1Scores [(Some ''A'', [(Some ''B'', 1)]), (Some ''B'', [])]
     = Inr [(Some ''A'', 0), (Some ''B'', 0)]
   \<and> safeDivide 0 0 = Inr 0"
  by (simp add: confusionMatrixToF1Scores_def f1_score_of_def prepareF1Score_def count_cell_def
       safeDivide_def bindE_def)
subsection \<open>Splitting a data set\<close>



lemma reshuffle_Inr_iff:
  "(\<exists>ds'. reshuffle sh ds = Inr ds') \<longleftrightarrow> split_ok (length (sh (data ds))) (validation_size ds)"
  by (auto simp: reshuffle_def Let_def split_ok_def slice_to_def slice_from_def)

lemma reshuffle_Inr_fields:
  assumes "reshuffle sh ds = Inr ds'"
  shows "data ds' = sh (data ds)" "validation_size ds' = validation_size ds"
    "none_data ds' = none_data ds" "title ds' = title ds"
    "training ds' = slice_from (data ds') (validation_size ds')"
    "validation ds' = slice_to (data ds') (validation_size ds') @ none_data ds'"
    "split_ok (length (data ds')) (validation_size ds')"
proof -
  from assms have ok: "split_ok (length (sh (data ds))) (validation_size ds)"
    using reshuffle_Inr_iff by blast
  from assms have eq: "ds' = ds\<lparr>data := sh (data ds),
      training := slice_from (sh (data ds)) (validation_size ds),
      validation := slice_to (sh (data ds)) (validation_size ds) @ none_data ds\<rparr>"
    by (auto simp: reshuffle_def Let_def split: if_splits)
  show "data ds' = sh (data ds)" "validation_size ds' = validation_size ds"
    "none_data ds' = none_data ds" "title ds' = title ds"
    "training ds' = slice_from (data ds') (validation_size ds')"
    "validation ds' = slice_to (data ds') (validation_size ds') @ none_data ds'"
    "split_ok (length (data ds')) (validation_size ds')"
    using ok by (simp_all add: eq)
qed


lemma reshuffles_total:
  assumes "split_ok (length (data ds)) (validation_size ds)"
    and "\<forall>sh\<in>set shs. \<forall>xs. length (sh xs) = length xs"
  shows "\<exists>ds'. reshuffles shs ds = Inr ds' \<and> validation_size ds' = validation_size ds
           \<and> length (data ds') = length (data ds)"
  using assms
proof (induction shs arbitrary: ds)
  case Nil
  then show ?case by simp
next
  case (Cons sh shs)
  have len: "length (sh (data ds)) = length (data ds)" using Cons.prems(2) by simp
  then have "split_ok (length (sh (data ds))) (validation_size ds)" using Cons.prems(1) by simp
  then obtain ds1 where r: "reshuffle sh ds = Inr ds1" using reshuffle_Inr_iff by blast
  note f = reshuffle_Inr_fields [OF r]
  have "\<exists>ds'. reshuffles shs ds1 = Inr ds' \<and> validation_size ds' = validation_size ds1
           \<and> length (data ds') = length (data ds1)"
    using Cons.IH [of ds1] f(7) Cons.prems(2) by simp
  then show ?case using r f(1,2) len by (auto simp: bindE_def)
qed

text \<open>
  Claim C10.  Once the constructor has returned normally, every later \<open>reshuffle()\<close> returns
  normally, whatever rearrangements the shuffles produce: the validation size is fixed in the
  constructor and the number of entries never changes, and the constructor's own split
  passed the emptiness check with these sizes.  The sequence of later calls is \<open>shs\<close>.
\<close>

theorem reshuffle_after_init_total:
  assumes "NLUDataSet_init sh0 ttl loaded P = Inr ds"
    and "\<forall>sh\<in>set shs. \<forall>xs. length (sh xs) = length xs"
  shows "\<exists>ds'. reshuffles shs ds = Inr ds' \<and> validation_size ds' = validation_size ds
           \<and> length (data ds') = length (data ds)"
proof -
  from assms(1) obtain ds0 where "reshuffle sh0 ds0 = Inr ds"
    by (auto simp: NLUDataSet_init_def Let_def)
  then have "split_ok (length (data ds)) (validation_size ds)"
    by (rule reshuffle_Inr_fields(7))
  then show ?thesis using assms(2) by (rule reshuffles_total)
qed

















theorem reshuffle_after_init_total_witness:
  "NLUDataSet_init rev ''t''
      [\<lparr>sentence = ''a'', intent = Some ''greet''\<rparr>, \<lparr>sentence = ''b'', intent = None\<rparr>,
       \<lparr>sentence = ''c'', intent = Some ''bye''\<rparr>] 50
     = Inr \<lparr>title = ''t'',
            data = [\<lparr>sentence = ''c'', intent = Some ''bye''\<rparr>,
                    \<lparr>sentence = ''a'', intent = Some ''greet''\<rparr>],
            none_data = [\<lparr>sentence = ''b'', intent = None\<rparr>], validation_size = 1,
            training = [\<lparr>sentence = ''a'', intent = Some ''greet''\<rparr>],
            validation = [\<lparr>sentence = ''c'', intent = Some ''bye''\<rparr>,
                          \<lparr>sentence = ''b'', intent = None\<rparr>]\<rparr>
   \<and> (\<exists>ds'. reshuffles [rev, rotate1]
          \<lparr>title = ''t'',
            data = [\<lparr>sentence = ''c'', intent = Some ''bye''\<rparr>,
                    \<lparr>sentence = ''a'', intent = Some ''greet''\<rparr>],
            none_data = [\<lparr>sentence = ''b'', intent = None\<rparr>], validation_size = 1,
            training = [\<lparr>sentence = ''a'', intent = Some ''greet''\<rparr>],
            validation = [\<lparr>sentence = ''c'', intent = Some ''bye''\<rparr>,
                          \<lparr>sentence = ''b'', intent = None\<rparr>]\<rparr>
        = Inr ds')"
proof -
  let ?L = "[\<lparr>sentence = ''a'', intent = Some ''greet''\<rparr>, \<lparr>sentence = ''b'', intent = None\<rparr>,
             \<lparr>sentence = ''c'', intent = Some ''bye''\<rparr>]"
  let ?DS = "\<lparr>title = ''t'',
            data = [\<lparr>sentence = ''c'', intent = Some ''bye''\<rparr>,
                    \<lparr>sentence = ''a'', intent = Some ''greet''\<rparr>],
            none_data = [\<lparr>sentence = ''b'', intent = None\<rparr>], validation_size = 1,
            training = [\<lparr>sentence = ''a'', intent = Some ''greet''\<rparr>],
            validation = [\<lparr>sentence = ''c'', intent = Some ''bye''\<rparr>,
                          \<lparr>sentence = ''b'', intent = None\<rparr>]\<rparr>"
  have i: "NLUDataSet_init rev ''t'' ?L 50 = Inr ?DS"
    by (simp add: NLUDataSet_init_def reshuffle_def without_none_def only_none_def
        slice_to_def slice_from_def Let_def)
  have p: "\<forall>sh\<in>set [rev, rotate1]. \<forall>xs::NLUDataEntry list. length (sh xs) = length xs"
    by simp
  from reshuffle_after_init_total [OF i p] have "\<exists>ds'. reshuffles [rev, rotate1] ?DS = Inr ds'"
    by blast
  with i show ?thesis by blast
qed
subsection \<open>Running an operation on many objects\<close>

lemma gather_length: "gather f xs s = (rs, s') \<Longrightarrow> length rs = length xs"
  by (induction xs arbitrary: s rs) (auto split: prod.splits)

lemma gather_traced_op:
  "gather (traced_op op) xs (s, tr) =
     (fst (gather op xs s), (snd (gather op xs s), tr @ map OpCall xs))"
  by (induction xs arbitrary: s tr) (auto simp: traced_op_def split: prod.splits)

lemma gather_traced_rollback:
  "gather (\<lambda>x. traced_rollback rb (fst x) (snd x)) ps (s, tr) =
     (fst (gather (\<lambda>x. rb (fst x) (snd x)) ps s),
      (snd (gather (\<lambda>x. rb (fst x) (snd x)) ps s),
       tr @ map (\<lambda>x. RollbackCall (fst x) (snd x)) ps))"
  by (induction ps arbitrary: s tr) (auto simp: traced_rollback_def split: prod.splits)

lemma gather_Cons:
  "gather f (x # xs) s =
     (fst (f x s) # fst (gather f xs (snd (f x s))), snd (gather f xs (snd (f x s))))"
  by (simp split: prod.splits)

lemma gather_nth:
  "i < length xs \<Longrightarrow>
     fst (gather f xs s) ! i = fst (f (xs ! i) (snd (gather f (take i xs) s)))"
proof (induction xs arbitrary: s i)
  case Nil
  then show ?case by simp
next
  case (Cons x xs)
  show ?case
  proof (cases i)
    case 0
    then show ?thesis by (simp add: gather_Cons del: gather.simps(2))
  next
    case (Suc j)
    then have "j < length xs" using Cons.prems by simp
    from Cons.IH [OF this, of "snd (f x s)"] Suc show ?thesis
      by (simp add: gather_Cons del: gather.simps(2))
  qed
qed

text \<open>The typed selections agree with the filters of the source.\<close>

lemma succeeded_of_filter:
  "map (\<lambda>x. (fst x, Inr (snd x))) (succeeded_of ps) = filter (\<lambda>x. \<not> isl (snd x)) ps"
  by (induction ps rule: succeeded_of.induct) simp_all

lemma failed_of_filter:
  "map (\<lambda>x. (Inl (fst x), snd x)) (failed_of ps) = filter (\<lambda>x. isl (fst x)) ps"
  by (induction ps rule: failed_of.induct) simp_all

lemma rollback_failures_of_filter:
  "map (\<lambda>x. (Inl (fst x), snd x)) (rollback_failures_of ps) = filter (\<lambda>x. isl (fst x)) ps"
  by (induction ps rule: rollback_failures_of.induct) simp_all

lemma failed_of_empty_iff:
  "length rs = length xs \<Longrightarrow> failed_of (zip rs xs) = [] \<longleftrightarrow> (\<forall>r\<in>set rs. \<not> isl r)"
proof (induction rs arbitrary: xs)
  case Nil
  then show ?case by simp
next
  case (Cons r rs)
  then obtain y ys where xs: "xs = y # ys" by (cases xs) auto
  with Cons show ?case by (cases r) auto
qed

lemma filter_no_rollback_OpCall: "filter is_rollback (map OpCall xs) = []"
  by (induction xs) (simp_all add: is_rollback_def)

lemma filter_rollback_RollbackCall:
  "filter is_rollback (map (\<lambda>x. RollbackCall (fst x) (snd x)) ps)
     = map (\<lambda>x. RollbackCall (fst x) (snd x)) ps"
  by (induction ps) (simp_all add: is_rollback_def)

text \<open>
  Claim C1.  When the operation fails on at least one object, \<open>run_in_parallel\<close> raises a
  \<open>ParallelException\<close> with the given message.  Its operation exceptions are the pairs
  (exception, object) of every failed operation, in the order of the objects.  With a
  rollback operation, the rollback is invoked exactly once for every object whose operation
  succeeded, with that object and its result (the rollback calls of the trace are exactly
  these, in order), the operation itself once per object, and the rollback exceptions are the
  triples (exception, object, result) of every rollback that failed; the exception is raised
  whatever the rollbacks deliver.  With \<open>None\<close> for the rollback operation no rollback is
  invoked and the list of rollback exceptions is empty.
\<close>

theorem run_in_parallel_failure:
  assumes g: "gather op objects s = (results, s1)"
    and fail: "\<exists>r\<in>set results. isl r"
    and rbk: "gather (\<lambda>x. rb (fst x) (snd x)) (succeeded_of (zip objects results)) s1
               = (rresults, s2)"
  shows "\<exists>trace.
      run_in_parallel objects (traced_op op) (Some (traced_rollback rb)) msg (s, [])
        = (Inl (ParallelException msg
                  (failed_of (zip results objects))
                  (rollback_failures_of (zip rresults (succeeded_of (zip objects results))))),
           (s2, trace))
      \<and> filter is_rollback trace
          = map (\<lambda>x. RollbackCall (fst x) (snd x)) (succeeded_of (zip objects results))
      \<and> filter (\<lambda>c. \<not> is_rollback c) trace = map OpCall objects
      \<and> map (\<lambda>x. (fst x, Inr (snd x))) (succeeded_of (zip objects results))
          = filter (\<lambda>x. \<not> isl (snd x)) (zip objects results)
      \<and> map (\<lambda>x. (Inl (fst x), snd x)) (failed_of (zip results objects))
          = filter (\<lambda>x. isl (fst x)) (zip results objects)
      \<and> map (\<lambda>x. (Inl (fst x), snd x))
            (rollback_failures_of (zip rresults (succeeded_of (zip objects results))))
          = filter (\<lambda>x. isl (fst x)) (zip rresults (succeeded_of (zip objects results)))
      \<and> run_in_parallel objects (traced_op op) None msg (s, [])
          = (Inl (ParallelException msg (failed_of (zip results objects)) []),
             (s1, map OpCall objects))"
proof -
  let ?S = "succeeded_of (zip objects results)"
  let ?T = "map OpCall objects @ map (\<lambda>x. RollbackCall (fst x) (snd x)) ?S"
  have len: "length results = length objects" using g by (rule gather_length)
  have ne: "failed_of (zip results objects) \<noteq> []"
    using failed_of_empty_iff [OF len] fail by blast
  have g': "gather (traced_op op) objects (s, []) = (results, (s1, map OpCall objects))"
    by (simp add: gather_traced_op g)
  have r': "gather (\<lambda>x. traced_rollback rb (fst x) (snd x)) ?S (s1, map OpCall objects)
              = (rresults, (s2, ?T))"
    by (simp add: gather_traced_rollback rbk)
  have some: "run_in_parallel objects (traced_op op) (Some (traced_rollback rb)) msg (s, [])
        = (Inl (ParallelException msg (failed_of (zip results objects))
                  (rollback_failures_of (zip rresults ?S))), (s2, ?T))"
    unfolding run_in_parallel_def g' using ne by (simp add: r' Let_def)
  have none: "run_in_parallel objects (traced_op op) None msg (s, [])
          = (Inl (ParallelException msg (failed_of (zip results objects)) []),
             (s1, map OpCall objects))"
    unfolding run_in_parallel_def g' using ne by (simp add: Let_def)
  have f1: "filter is_rollback ?T = map (\<lambda>x. RollbackCall (fst x) (snd x)) ?S"
    by (simp add: filter_no_rollback_OpCall filter_rollback_RollbackCall)
  have f2: "filter (\<lambda>c. \<not> is_rollback c) ?T = map OpCall objects"
  proof -
    have "filter (\<lambda>c. \<not> is_rollback c) (map OpCall objects) = map OpCall objects"
      by (induction objects) (simp_all add: is_rollback_def)
    moreover have "filter (\<lambda>c. \<not> is_rollback c) (map (\<lambda>x. RollbackCall (fst x) (snd x)) ?S) = []"
      by (induction ?S) (simp_all add: is_rollback_def filter_empty_conv)
    ultimately show ?thesis by simp
  qed
  show ?thesis
    using some none f1 f2 succeeded_of_filter [of "zip objects results"]
      failed_of_filter [of "zip results objects"]
      rollback_failures_of_filter [of "zip rresults ?S"]
    by blast
qed

theorem run_in_parallel_failure_witness:
  "\<exists>trace.
      run_in_parallel [1, 2, 3 :: nat]
          (traced_op (\<lambda>x s. (if x = 2 then Inl ''boom'' else Inr (10 * x), Suc s)))
          (Some (traced_rollback (\<lambda>x r s. (if x = 3 then Inl ''undo'' else Inr (), s + r))))
          ''m'' (0 :: nat, [])
        = (Inl (ParallelException ''m'' [(''boom'', 2)] [(''undo'', 3, 30)]), (43, trace))
      \<and> filter is_rollback trace = [RollbackCall 1 10, RollbackCall 3 30]
      \<and> filter (\<lambda>c. \<not> is_rollback c) trace = [OpCall 1, OpCall 2, OpCall 3]"
proof -
  let ?op = "\<lambda>(x::nat) (s::nat). (if x = 2 then Inl ''boom'' else Inr (10 * x) :: string + nat, Suc s)"
  let ?rb = "\<lambda>(x::nat) (r::nat) (s::nat). (if x = 3 then Inl ''undo'' else Inr () :: string + unit, s + r)"
  have g: "gather ?op [1, 2, 3] 0 = ([Inr 10, Inl ''boom'', Inr 30], 3)" by simp
  have f: "\<exists>r\<in>set [Inr 10, Inl ''boom'', Inr 30 :: string + nat]. isl r" by simp
  have r: "gather (\<lambda>x. ?rb (fst x) (snd x))
             (succeeded_of (zip [1, 2, 3] [Inr 10, Inl ''boom'', Inr 30 :: string + nat])) 3
           = ([Inr (), Inl ''undo''], 43)" by simp
  from run_in_parallel_failure [OF g f r, of "''m''"] show ?thesis by simp blast
qed


text \<open>
  Claim C2.  When the operation succeeds on every object, \<open>run_in_parallel\<close> returns
  normally, with or without a rollback operation; the result list is as long as the list of
  objects, its \<open>i\<close>-th entry is what the operation delivered for the \<open>i\<close>-th object, and the
  trace holds the operation calls only: the rollback operation is never invoked.
\<close>

theorem run_in_parallel_success:
  assumes g: "gather op objects s = (results, s1)"
    and ok: "\<forall>r\<in>set results. \<not> isl r"
  shows "\<exists>rs. run_in_parallel objects (traced_op op) (map_option traced_rollback rollback_op)
                 msg (s, [])
               = (Inr rs, (s1, map OpCall objects))
          \<and> length rs = length objects
          \<and> (\<forall>i<length objects.
                 fst (op (objects ! i) (snd (gather op (take i objects) s))) = Inr (rs ! i))
          \<and> filter is_rollback (map OpCall objects) = []"
proof -
  have len: "length results = length objects" using g by (rule gather_length)
  have e: "failed_of (zip results objects) = []"
    using failed_of_empty_iff [OF len] ok by blast
  have g': "gather (traced_op op) objects (s, []) = (results, (s1, map OpCall objects))"
    by (simp add: gather_traced_op g)
  have run: "run_in_parallel objects (traced_op op) (map_option traced_rollback rollback_op)
                 msg (s, []) = (Inr (map projr results), (s1, map OpCall objects))"
    unfolding run_in_parallel_def g' using e by (simp add: Let_def)
  have nth: "fst (op (objects ! i) (snd (gather op (take i objects) s)))
               = Inr (map projr results ! i)" if "i < length objects" for i
  proof -
    have "results ! i = fst (op (objects ! i) (snd (gather op (take i objects) s)))"
      using gather_nth [OF that, of op s] g by simp
    moreover have "\<not> isl (results ! i)" using ok that len by simp
    ultimately show ?thesis using that len by (cases "results ! i") simp_all
  qed
  show ?thesis
    using run nth len filter_no_rollback_OpCall [of objects] by (intro exI [of _ "map projr results"]) simp
qed

theorem run_in_parallel_success_witness:
  "run_in_parallel [1, 2, 3 :: nat]
          (traced_op (\<lambda>x s. (Inr (10 * x + s) :: string + nat, Suc s)))
          (Some (traced_rollback (\<lambda>x r s. (Inr () :: string + unit, s + r))))
          ''m'' (0 :: nat, [])
        = (Inr [10, 21, 32], (3, [OpCall 1, OpCall 2, OpCall 3]))"
proof -
  let ?op = "\<lambda>(x::nat) (s::nat). (Inr (10 * x + s) :: string + nat, Suc s)"
  let ?rb = "\<lambda>(x::nat) (r::nat) (s::nat). (Inr () :: string + unit, s + r)"
  have g: "gather ?op [1, 2, 3] 0 = ([Inr 10, Inr 21, Inr 32], 3)" by simp
  have f: "\<forall>r\<in>set [Inr 10, Inr 21, Inr 32 :: string + nat]. \<not> isl r" by simp
  from run_in_parallel_success [OF g f, of "Some ?rb" "''m''"]
  obtain rs where 1: "run_in_parallel [1, 2, 3] (traced_op ?op) (Some (traced_rollback ?rb)) ''m'' (0, [])
      = (Inr rs, (3, [OpCall 1, OpCall 2, OpCall 3]))"
    and 2: "length rs = 3"
    and 3: "\<forall>i<3. fst (?op ([1, 2, 3] ! i) (snd (gather ?op (take i [1, 2, 3]) 0))) = Inr (rs ! i)"
    by auto
  from 3 have "rs ! 0 = 10" "rs ! 1 = 21" "rs ! 2 = 32"
    by (simp_all add: numeral_2_eq_2 numeral_3_eq_3 All_less_Suc)
  with 2 have "rs = [10, 21, 32]"
    by (intro nth_equalityI) (auto simp: less_Suc_eq numeral_3_eq_3 numeral_2_eq_2)
  with 1 show ?thesis by simp
qed
subsection \<open>Means and variances over the iterations\<close>


lemma score_getter_cases:
  "(\<exists>by_intent. (\<forall>i. score_getter dt ft i x = Inr (map_of by_intent i)))
   \<or> (\<forall>i. score_getter dt ft i x = Inl KeyError)"
  by (auto simp: score_getter_def bindE_def dict_lookup_def split: option.splits)

lemma mapE_score_getter_isl:
  "isl (mapE (score_getter dt ft i) its) = isl (mapE (score_getter dt ft j) its)"
proof (induction its)
  case Nil
  then show ?case by simp
next
  case (Cons x its)
  from score_getter_cases [of dt ft x] show ?case
  proof
    assume "\<exists>by_intent. \<forall>i. score_getter dt ft i x = Inr (map_of by_intent i)"
    then obtain b where b: "\<And>i. score_getter dt ft i x = Inr (map_of b i)" by blast
    show ?thesis using Cons.IH
      by (cases "mapE (score_getter dt ft i) its"; cases "mapE (score_getter dt ft j) its")
        (simp_all add: b bindE_def)
  next
    assume "\<forall>i. score_getter dt ft i x = Inl KeyError"
    then show ?thesis by (simp add: bindE_def)
  qed
qed









end
